theory Spec2Isabelle
  imports Complex_Main
begin

section \<open>Numbers, vectors and scene objects\<close>

text \<open>
  The scene script works on JavaScript numbers. They are idealised here as real numbers:
  every arithmetic operation, \<open>Math.sin\<close>, \<open>Math.cos\<close> and \<open>Math.max\<close> is the exact real
  function, so rounding, infinities and NaN are outside the model. The engine's
  \<open>Vector3\<close> is a record of three reals, a mesh is its position and its Euler rotation,
  a camera is its position and its target. Vectors are values: the engine's sharing of one
  vector object between two owners is not modelled.
\<close>

record Vector3 =
  vx :: real
  vy :: real
  vz :: real

record Mesh =
  position :: Vector3
  rotation :: Vector3

record Camera =
  camPosition :: Vector3
  camTarget :: Vector3

datatype CameraId = PrimaryCamera | ReflectionCamera

type_synonym Color3 = "real \<times> real \<times> real"

type_synonym Plane = "real \<times> real \<times> real \<times> real"

definition vec3 :: "real \<Rightarrow> real \<Rightarrow> real \<Rightarrow> Vector3" where
  "vec3 a b c = \<lparr>vx = a, vy = b, vz = c\<rparr>"

definition vadd :: "Vector3 \<Rightarrow> Vector3 \<Rightarrow> Vector3" where
  "vadd u v = vec3 (vx u + vx v) (vy u + vy v) (vz u + vz v)"

definition vsubtract :: "Vector3 \<Rightarrow> Vector3 \<Rightarrow> Vector3" where
  "vsubtract u v = vec3 (vx u - vx v) (vy u - vy v) (vz u - vz v)"

definition vscale :: "Vector3 \<Rightarrow> real \<Rightarrow> Vector3" where
  "vscale v k = vec3 (vx v * k) (vy v * k) (vz v * k)"

definition Dot :: "Vector3 \<Rightarrow> Vector3 \<Rightarrow> real" where
  "Dot u v = vx u * vx v + vy u * vy v + vz u * vz v"

text \<open>
  Modelled from the spec: \<open>Vector3.Reflect\<close> belongs to the rendering engine and is not part
  of the script; the specification gives it as \<open>v - 2 (v \<cdot> n) n\<close>.
\<close>

definition Reflect :: "Vector3 \<Rightarrow> Vector3 \<Rightarrow> Vector3" where
  "Reflect v n = vsubtract v (vscale n (2 * Dot v n))"

section \<open>Constants of the script\<close>

definition BOAT_BASE_HEIGHT :: real where
  "BOAT_BASE_HEIGHT = 16.7"

definition BOAT_ROTATION_Y :: real where
  "BOAT_ROTATION_Y = pi"

definition WORLD_SIZE :: real where
  "WORLD_SIZE = 40000"

definition HALF_WORLD_SIZE :: real where
  "HALF_WORLD_SIZE = WORLD_SIZE / 2"

definition dayNightCycleSpeed :: real where
  "dayNightCycleSpeed = 0.00003"

definition moveSpeed :: real where
  "moveSpeed = 0.5"

definition turnSpeed :: real where
  "turnSpeed = 0.005"

definition minAmplitude :: real where
  "minAmplitude = 1.0"

definition maxAmplitude :: real where
  "maxAmplitude = 7.0"

definition minFrequency :: real where
  "minFrequency = 0.005"

definition maxFrequency :: real where
  "maxFrequency = 0.03"

definition nightDuration :: real where
  "nightDuration = 0.5"

definition dayNightRatio :: real where
  "dayNightRatio = 1.0 - nightDuration"

definition boatWaveAmplitude :: real where
  "boatWaveAmplitude = 0.25"

definition pitchDelta :: real where
  "pitchDelta = 5"

definition rollDelta :: real where
  "rollDelta = 3"

definition nightHemiColor :: Color3 where
  "nightHemiColor = (0.01, 0.02, 0.05)"

definition daySunColor :: Color3 where
  "daySunColor = (1, 0.95, 0.8)"

definition dayHemiColor :: Color3 where
  "dayHemiColor = (0.9, 0.9, 1)"

definition waterMeshPosition :: Vector3 where
  "waterMeshPosition = vec3 0 0 0"

section \<open>The scene state\<close>

text \<open>
  The variables the per-frame callback, the key handlers, the loader callback and the two
  reflection hooks read and write. \<open>inputMap\<close> is the script's object from key names to
  booleans; a key never seen is absent. \<open>clouds\<close> holds the x coordinate of each cloud, the
  only cloud field that changes after creation. State the script only hands to the engine
  and never reads back (water colours, fog, the sun's position, the reflection matrix) is
  left out.
\<close>

record Scene =
  timeOfDay :: real
  boatYaw :: real
  boatContainer :: "Mesh option"
  inputMap :: "string \<rightharpoonup> bool"
  clouds :: "real list"
  camera :: Camera
  reflectionCamera :: Camera
  activeCamera :: CameraId
  waterMeshVisible :: bool
  clipPlane :: "Plane option"
  uniformTime :: real
  uniformWaveAmplitude :: real
  uniformWaveFrequency :: real
  skyInclination :: real
  sunEmissive :: Color3
  hemiDiffuse :: Color3
  hemiIntensity :: real
  sunIntensity :: real

section \<open>Pure helpers of the script\<close>

definition lerp :: "real \<Rightarrow> real \<Rightarrow> real \<Rightarrow> real" where
  "lerp a b t = a + (b - a) * t"

definition lerpColor :: "Color3 \<Rightarrow> Color3 \<Rightarrow> real \<Rightarrow> Color3" where
  "lerpColor start end' t =
     (case start of (sr, sg, sb) \<Rightarrow> case end' of (er, eg, eb) \<Rightarrow>
        (sr + (er - sr) * t, sg + (eg - sg) * t, sb + (eb - sb) * t))"

definition waveHeight :: "real \<Rightarrow> real \<Rightarrow> real \<Rightarrow> real" where
  "waveHeight x z time =
     (let waveFrequency = 0.05;
          waveAmplitude = 4.0;
          wave = sin (x * waveFrequency + time) * sin (z * waveFrequency * 1.5 + time * 0.7)
      in wave * waveAmplitude)"

text \<open>
  The wave term of the water vertex shader and the height it adds to a vertex, as functions
  of the vertex position and of the uniforms \<open>time\<close>, \<open>waveFrequency\<close>, \<open>waveAmplitude\<close>.
\<close>

definition shaderWave :: "Vector3 \<Rightarrow> real \<Rightarrow> real \<Rightarrow> real" where
  "shaderWave p waveFrequency time =
     sin (vx p * waveFrequency + time) * cos (vz p * waveFrequency * 1.5 + time * 0.7)"

definition displacedPosition :: "Vector3 \<Rightarrow> real \<Rightarrow> real \<Rightarrow> real \<Rightarrow> Vector3" where
  "displacedPosition p waveAmplitude waveFrequency time =
     vec3 (vx p) (vy p + shaderWave p waveFrequency time * waveAmplitude) (vz p)"

definition pressed :: "(string \<rightharpoonup> bool) \<Rightarrow> string \<Rightarrow> bool" where
  "pressed m k = (case m k of None \<Rightarrow> False | Some b \<Rightarrow> b)"

section \<open>The per-frame callback\<close>

subsection \<open>Wave parameters\<close>

definition waveStrength :: "real \<Rightarrow> real" where
  "waveStrength now = 0.5 + 0.5 * sin (now * 0.05)"

definition amplitudeAt :: "real \<Rightarrow> real" where
  "amplitudeAt s = minAmplitude + (maxAmplitude - minAmplitude) * s"

definition frequencyAt :: "real \<Rightarrow> real" where
  "frequencyAt s = minFrequency + (maxFrequency - minFrequency) * s"

definition newAmplitude :: "real \<Rightarrow> real" where
  "newAmplitude now = amplitudeAt (waveStrength now)"

definition newFrequency :: "real \<Rightarrow> real" where
  "newFrequency now = frequencyAt (waveStrength now)"

subsection \<open>Day and night\<close>

definition inclinationFactor :: "real \<Rightarrow> real" where
  "inclinationFactor tod =
     (let offset = pi / 2;
          cycle = sin (tod + offset)
      in max 0 ((cycle + nightDuration) / dayNightRatio))"

subsection \<open>Clouds\<close>

definition cloudStep :: "real \<Rightarrow> real \<Rightarrow> real" where
  "cloudStep dt cx =
     (let cx1 = cx + dt * 0.01
      in if cx1 > HALF_WORLD_SIZE * 1.5 then - HALF_WORLD_SIZE * 1.5 else cx1)"

subsection \<open>Boat: heave, pitch and roll\<close>

definition verticalOffset :: "real \<Rightarrow> Mesh \<Rightarrow> real" where
  "verticalOffset now b =
     (let worldPosition = position b;
          wave = sin (vx worldPosition * newFrequency now + now)
                 * sin (vz worldPosition * newFrequency now * 1.5 + now * 0.7)
      in wave * newAmplitude now)"

definition heave :: "real \<Rightarrow> Mesh \<Rightarrow> Mesh" where
  "heave now b =
     (let targetY = verticalOffset now b * boatWaveAmplitude + BOAT_BASE_HEIGHT
      in b\<lparr>position := (position b)\<lparr>vy := lerp (vy (position b)) targetY 0.05\<rparr>\<rparr>)"

definition pitch :: "real \<Rightarrow> Mesh \<Rightarrow> real" where
  "pitch now b =
     (let worldPosition = position b;
          pitchFrontWave = sin (vx worldPosition * newFrequency now + now)
                 * sin ((vz worldPosition + pitchDelta) * newFrequency now * 1.5 + now * 0.7);
          pitchBackWave = sin (vx worldPosition * newFrequency now + now)
                 * sin ((vz worldPosition - pitchDelta) * newFrequency now * 1.5 + now * 0.7);
          pitchFront = pitchFrontWave * newAmplitude now;
          pitchBack = pitchBackWave * newAmplitude now
      in (pitchFront - pitchBack) / (2 * pitchDelta))"

definition roll :: "real \<Rightarrow> Mesh \<Rightarrow> real" where
  "roll now b =
     (let worldPosition = position b;
          rollRightWave = sin ((vx worldPosition + rollDelta) * newFrequency now + now)
                 * sin (vz worldPosition * newFrequency now * 1.5 + now * 0.7);
          rollLeftWave = sin ((vx worldPosition - rollDelta) * newFrequency now + now)
                 * sin (vz worldPosition * newFrequency now * 1.5 + now * 0.7);
          rollRight = rollRightWave * newAmplitude now;
          rollLeft = rollLeftWave * newAmplitude now
      in (rollRight - rollLeft) / (2 * rollDelta))"

definition targetPitch :: "real \<Rightarrow> Mesh \<Rightarrow> real" where
  "targetPitch now b = pitch now b * 0.1"

definition targetRoll :: "real \<Rightarrow> Mesh \<Rightarrow> real" where
  "targetRoll now b = roll now b * - 0.5"

definition attitude :: "real \<Rightarrow> Mesh \<Rightarrow> Mesh" where
  "attitude now b =
     b\<lparr>rotation := (rotation b)
        \<lparr>vx := lerp (vx (rotation b)) (targetPitch now b) 0.05,
         vz := lerp (vz (rotation b)) (targetRoll now b) 0.05\<rparr>\<rparr>"

subsection \<open>Boat: translation, heading and world wrap\<close>

definition forward :: "Mesh \<Rightarrow> Vector3" where
  "forward b = vec3 (cos (vy (rotation b))) 0 (sin (- vy (rotation b)))"

definition translate :: "(string \<rightharpoonup> bool) \<Rightarrow> Mesh \<Rightarrow> Mesh" where
  "translate inp b =
     (let fwd = forward b;
          b1 = (if pressed inp ''w'' \<or> pressed inp ''ArrowUp''
                then b\<lparr>position := vadd (position b) (vscale fwd (- moveSpeed))\<rparr> else b);
          b2 = (if pressed inp ''s'' \<or> pressed inp ''ArrowDown''
                then b1\<lparr>position := vadd (position b1) (vscale fwd moveSpeed)\<rparr> else b1)
      in b2)"

definition steer :: "(string \<rightharpoonup> bool) \<Rightarrow> real \<Rightarrow> real \<Rightarrow> real" where
  "steer inp dt yaw =
     (let yaw1 = (if pressed inp ''a'' \<or> pressed inp ''ArrowLeft''
                  then yaw - turnSpeed * dt else yaw);
          yaw2 = (if pressed inp ''d'' \<or> pressed inp ''ArrowRight''
                  then yaw1 + turnSpeed * dt else yaw1)
      in yaw2)"

definition heading :: "real \<Rightarrow> Mesh \<Rightarrow> Mesh" where
  "heading yaw b = b\<lparr>rotation := (rotation b)\<lparr>vy := lerp (vy (rotation b)) yaw 0.1\<rparr>\<rparr>"

definition wrapCoordinate :: "real \<Rightarrow> real" where
  "wrapCoordinate c =
     (if c > HALF_WORLD_SIZE then - HALF_WORLD_SIZE
      else if c < - HALF_WORLD_SIZE then HALF_WORLD_SIZE
      else c)"

definition boundary :: "Mesh \<Rightarrow> Mesh" where
  "boundary b =
     b\<lparr>position := (position b)
        \<lparr>vx := wrapCoordinate (vx (position b)),
         vz := wrapCoordinate (vz (position b))\<rparr>\<rparr>"

text \<open>
  \<open>beforeBoundary\<close> is the boat as the callback has it when it reaches the boundary check:
  after heave, pitch and roll, translation and the heading update. \<open>boatTick\<close> is the whole
  boat block.
\<close>

definition beforeBoundary :: "real \<Rightarrow> real \<Rightarrow> (string \<rightharpoonup> bool) \<Rightarrow> real \<Rightarrow> Mesh \<Rightarrow> Mesh" where
  "beforeBoundary now dt inp yaw b =
     heading (steer inp dt yaw) (translate inp (attitude now (heave now b)))"

definition boatTick :: "real \<Rightarrow> real \<Rightarrow> (string \<rightharpoonup> bool) \<Rightarrow> real \<Rightarrow> Mesh \<Rightarrow> Mesh" where
  "boatTick now dt inp yaw b = boundary (beforeBoundary now dt inp yaw b)"

subsection \<open>The callback\<close>

definition tick :: "real \<Rightarrow> real \<Rightarrow> Scene \<Rightarrow> Scene" where
  "tick now dt s =
     (let tod = timeOfDay s + dayNightCycleSpeed * dt;
          f = inclinationFactor tod;
          s1 = s\<lparr>uniformWaveAmplitude := newAmplitude now,
                 uniformWaveFrequency := newFrequency now,
                 uniformTime := now,
                 timeOfDay := tod,
                 skyInclination := 0.2 + 0.8 * f,
                 sunEmissive := lerpColor nightHemiColor daySunColor f,
                 hemiDiffuse := lerpColor nightHemiColor dayHemiColor f,
                 hemiIntensity := 0.4 + 0.6 * f,
                 sunIntensity := 1.0 + 1.0 * f,
                 clouds := map (cloudStep dt) (clouds s)\<rparr>
      in case boatContainer s1 of
           None \<Rightarrow> s1
         | Some b \<Rightarrow>
             (let b' = boatTick now dt (inputMap s1) (boatYaw s1) b
              in s1\<lparr>boatYaw := steer (inputMap s1) dt (boatYaw s1),
                     boatContainer := Some b',
                     camera := (camera s1)\<lparr>camTarget := position b'\<rparr>\<rparr>))"

section \<open>Key handlers, loader callback and reflection hooks\<close>

text \<open>
  Both key actions run the same body: the key of the event is mapped to whether the event
  is a key-down event.
\<close>

definition keyAction :: "string \<Rightarrow> string \<Rightarrow> Scene \<Rightarrow> Scene" where
  "keyAction key type s = s\<lparr>inputMap := (inputMap s)(key \<mapsto> (type = ''keydown''))\<rparr>"

text \<open>
  The loader callback; \<open>found\<close> says whether the root mesh and its first child were found.
\<close>

definition boatLoaded :: "bool \<Rightarrow> Scene \<Rightarrow> Scene" where
  "boatLoaded found s =
     (if found then
        (let c = \<lparr>position = vec3 0 BOAT_BASE_HEIGHT 0, rotation = vec3 0 BOAT_ROTATION_Y 0\<rparr>
         in s\<lparr>boatContainer := Some c,
               boatYaw := vy (rotation c),
               camera := (camera s)\<lparr>camTarget := position c\<rparr>,
               reflectionCamera := (reflectionCamera s)\<lparr>camTarget := position c\<rparr>\<rparr>)
      else s)"

definition onBeforeRender :: "Scene \<Rightarrow> Scene" where
  "onBeforeRender s =
     (let normal = vec3 0 1 0;
          camPos = camPosition (camera s);
          reflectedPos = Reflect camPos normal;
          target = camTarget (camera s);
          viewDir = vsubtract target camPos;
          reflectedTarget = vadd reflectedPos (Reflect viewDir normal)
      in s\<lparr>activeCamera := ReflectionCamera,
             waterMeshVisible := False,
             reflectionCamera := \<lparr>camPosition = reflectedPos, camTarget = reflectedTarget\<rparr>,
             clipPlane := Some (vx normal, vy normal, vz normal, - Dot normal waterMeshPosition)\<rparr>)"

definition onAfterRender :: "Scene \<Rightarrow> Scene" where
  "onAfterRender s =
     s\<lparr>waterMeshVisible := True, clipPlane := None, activeCamera := PrimaryCamera\<rparr>"

section \<open>The scene at start and its reachable states\<close>

text \<open>
  The state \<open>createScene\<close> leaves behind, before any frame: the day-night phase is \<open>pi\<close>,
  no boat is loaded, no key has been seen. The orbit camera's position comes from the
  engine and the cloud positions are random, so they are parameters.
\<close>

definition initialScene :: "Vector3 \<Rightarrow> Vector3 \<Rightarrow> real list \<Rightarrow> Scene" where
  "initialScene camPos reflPos cs =
     \<lparr>timeOfDay = pi, boatYaw = 0, boatContainer = None, inputMap = Map.empty,
      clouds = cs,
      camera = \<lparr>camPosition = camPos, camTarget = vec3 0 0 0\<rparr>,
      reflectionCamera = \<lparr>camPosition = reflPos, camTarget = vec3 0 0 0\<rparr>,
      activeCamera = PrimaryCamera, waterMeshVisible = True, clipPlane = None,
      uniformTime = 0, uniformWaveAmplitude = 4.0, uniformWaveFrequency = 0.05,
      skyInclination = 0.0, sunEmissive = (1, 0.9, 0.6),
      hemiDiffuse = (165 / 255, 200 / 255, 227 / 255),
      hemiIntensity = 0.8, sunIntensity = 2\<rparr>"

text \<open>
  The events that change the scene: a frame (with the clock reading \<open>now\<close> and the
  engine's non-negative frame time \<open>dt\<close>), a key event, the loader callback, the user
  orbiting the primary camera, and the two hooks around the reflection pass.
\<close>

inductive reachable :: "Scene \<Rightarrow> bool" where
  start: "reachable (initialScene camPos reflPos cs)"
| frame: "reachable s \<Longrightarrow> 0 \<le> dt \<Longrightarrow> reachable (tick now dt s)"
| key: "reachable s \<Longrightarrow> reachable (keyAction k ty s)"
| loaded: "reachable s \<Longrightarrow> reachable (boatLoaded found s)"
| orbit: "reachable s \<Longrightarrow> reachable (s\<lparr>camera := (camera s)\<lparr>camPosition := p\<rparr>\<rparr>)"
| prepass: "reachable s \<Longrightarrow> reachable (onBeforeRender s)"
| postpass: "reachable s \<Longrightarrow> reachable (onAfterRender s)"

definition inWorld :: "Scene \<Rightarrow> bool" where
  "inWorld s =
     (case boatContainer s of
        None \<Rightarrow> True
      | Some b \<Rightarrow> \<bar>vx (position b)\<bar> \<le> HALF_WORLD_SIZE \<and> \<bar>vz (position b)\<bar> \<le> HALF_WORLD_SIZE)"

text \<open>
  A scene for worked examples: the start scene with a boat container placed at \<open>p\<close> with
  yaw \<open>yaw\<close> and the key map \<open>inp\<close>.
\<close>

definition boatAt :: "Vector3 \<Rightarrow> real \<Rightarrow> (string \<rightharpoonup> bool) \<Rightarrow> Scene" where
  "boatAt p yaw inp =
     (initialScene (vec3 0 50 (- 190)) (vec3 0 (- 50) (- 190)) [])
       \<lparr>boatYaw := yaw,
        boatContainer := Some \<lparr>position = p, rotation = vec3 0 yaw 0\<rparr>,
        inputMap := inp\<rparr>"

section \<open>The specification's wording\<close>

text \<open>
  The reference wave field of the specification:
  \<open>height(x,z,t,a,f) = a \<cdot> sin(x\<cdot>f + t) \<cdot> sin(z\<cdot>1.5f + 0.7t)\<close>.
\<close>

definition height :: "real \<Rightarrow> real \<Rightarrow> real \<Rightarrow> real \<Rightarrow> real \<Rightarrow> real" where
  "height x z t a f = a * (sin (x * f + t) * sin (z * (1.5 * f) + 0.7 * t))"

text \<open>
  The central finite difference of the reference field, under the frame's live amplitude and
  frequency, between the two probe points at distance \<open>\<delta>\<close> from the boat along the
  horizontal direction \<open>d\<close>.
\<close>

definition slopeAlong :: "Vector3 \<Rightarrow> real \<Rightarrow> real \<Rightarrow> Mesh \<Rightarrow> real" where
  "slopeAlong d \<delta> now b =
     (height (vx (position b) + \<delta> * vx d) (vz (position b) + \<delta> * vz d) now
        (newAmplitude now) (newFrequency now)
      - height (vx (position b) - \<delta> * vx d) (vz (position b) - \<delta> * vz d) now
          (newAmplitude now) (newFrequency now)) / (2 * \<delta>)"

text \<open>
  The specification's targets: probes along the boat's heading for pitch, lateral to it for
  roll. The heading is the callback's forward vector; the lateral direction is the
  horizontal direction perpendicular to it.
\<close>

definition lateral :: "Mesh \<Rightarrow> Vector3" where
  "lateral b = vec3 (- vz (forward b)) 0 (vx (forward b))"

definition headingTargetPitch :: "real \<Rightarrow> Mesh \<Rightarrow> real" where
  "headingTargetPitch now b = slopeAlong (forward b) 5 now b * 0.1"

definition lateralTargetRoll :: "real \<Rightarrow> Mesh \<Rightarrow> real" where
  "lateralTargetRoll now b = slopeAlong (lateral b) 3 now b * - 0.5"

section \<open>Auxiliary facts\<close>

lemma vec3_sel [simp]: "vx (vec3 a b c) = a" "vy (vec3 a b c) = b" "vz (vec3 a b c) = c"
  by (simp_all add: vec3_def)

lemma boatAt_sel [simp]:
  "boatContainer (boatAt p yaw inp) = Some \<lparr>position = p, rotation = vec3 0 yaw 0\<rparr>"
  "inputMap (boatAt p yaw inp) = inp"
  "boatYaw (boatAt p yaw inp) = yaw"
  "camera (boatAt p yaw inp) = \<lparr>camPosition = vec3 0 50 (- 190), camTarget = vec3 0 0 0\<rparr>"
  by (simp_all add: boatAt_def initialScene_def)

lemma inline_wave_height:
  "sin (x * f + t) * sin (z * f * 1.5 + t * 0.7) * a = height x z t a f"
proof -
  have e1: "z * f * 1.5 = z * (1.5 * f)" by simp
  have e2: "t * 0.7 = 0.7 * t" by simp
  show ?thesis unfolding height_def e1 e2 by (rule mult.commute)
qed

lemma newAmplitude_0: "newAmplitude 0 = 4"
  by (simp add: newAmplitude_def amplitudeAt_def waveStrength_def minAmplitude_def
      maxAmplitude_def)

lemma newFrequency_0: "newFrequency 0 = 0.0175"
  by (simp add: newFrequency_def frequencyAt_def waveStrength_def minFrequency_def
      maxFrequency_def)

lemma sin_small_pos: "0 < x \<Longrightarrow> x < 2 \<Longrightarrow> 0 < sin (x::real)"
  using pi_ge_two by (intro sin_gt_zero) simp_all

lemma tick_uniforms:
  "uniformWaveAmplitude (tick now dt s) = newAmplitude now"
  "uniformWaveFrequency (tick now dt s) = newFrequency now"
  "uniformTime (tick now dt s) = now"
  by (simp_all add: tick_def Let_def split: option.splits)

lemma tick_daylight:
  "timeOfDay (tick now dt s) = timeOfDay s + dayNightCycleSpeed * dt"
  "skyInclination (tick now dt s) = 0.2 + 0.8 * inclinationFactor (timeOfDay (tick now dt s))"
  by (simp_all add: tick_def Let_def split: option.splits)

lemma tick_boat:
  "boatContainer (tick now dt s) =
     map_option (boatTick now dt (inputMap s) (boatYaw s)) (boatContainer s)"
  by (simp add: tick_def Let_def split: option.splits)

lemma position_boundary:
  "position (boundary b) =
     (position b)\<lparr>vx := wrapCoordinate (vx (position b)),
                  vz := wrapCoordinate (vz (position b))\<rparr>"
  by (simp add: boundary_def)

lemma wrapCoordinate_bounds: "\<bar>wrapCoordinate c\<bar> \<le> HALF_WORLD_SIZE"
  by (simp add: wrapCoordinate_def HALF_WORLD_SIZE_def WORLD_SIZE_def abs_le_iff)

lemma wrapCoordinate_inside: "\<bar>c\<bar> \<le> HALF_WORLD_SIZE \<Longrightarrow> wrapCoordinate c = c"
  by (simp add: wrapCoordinate_def abs_le_iff)

lemma position_beforeBoundary:
  "vx (position (beforeBoundary now dt inp yaw b)) = vx (position (translate inp b))"
  "vz (position (beforeBoundary now dt inp yaw b)) = vz (position (translate inp b))"
  by (simp_all add: beforeBoundary_def heading_def translate_def attitude_def heave_def
      forward_def vadd_def vscale_def Let_def)

lemma position_translate_forward:
  assumes "pressed inp ''w'' \<or> pressed inp ''ArrowUp''"
    and "\<not> pressed inp ''s''" and "\<not> pressed inp ''ArrowDown''"
  shows "position (translate inp b) = vadd (position b) (vscale (forward b) (- moveSpeed))"
  using assms by (simp add: translate_def Let_def)

lemma position_translate_backward:
  assumes "\<not> pressed inp ''w''" and "\<not> pressed inp ''ArrowUp''"
    and "pressed inp ''s'' \<or> pressed inp ''ArrowDown''"
  shows "position (translate inp b) = vadd (position b) (vscale (forward b) moveSpeed)"
  using assms by (simp add: translate_def Let_def)

lemma targetPitch_slope: "targetPitch now b = slopeAlong (vec3 0 0 1) 5 now b * 0.1"
  unfolding targetPitch_def pitch_def Let_def inline_wave_height slopeAlong_def pitchDelta_def
  by simp

lemma targetRoll_slope: "targetRoll now b = slopeAlong (vec3 1 0 0) 3 now b * - 0.5"
  unfolding targetRoll_def roll_def Let_def inline_wave_height slopeAlong_def rollDelta_def
  by simp

lemma targetPitch_heave: "targetPitch now (heave now b) = targetPitch now b"
  by (simp add: targetPitch_def pitch_def heave_def Let_def)

lemma targetRoll_heave: "targetRoll now (heave now b) = targetRoll now b"
  by (simp add: targetRoll_def roll_def heave_def Let_def)

lemma rotation_boatTick:
  "vx (rotation (boatTick now dt inp yaw b)) = lerp (vx (rotation b)) (targetPitch now b) 0.05"
  "vz (rotation (boatTick now dt inp yaw b)) = lerp (vz (rotation b)) (targetRoll now b) 0.05"
proof -
  have r: "rotation (translate inp c) = rotation c" for c
    by (simp add: translate_def Let_def)
  have h: "rotation (heave now b) = rotation b"
    by (simp add: heave_def Let_def)
  show "vx (rotation (boatTick now dt inp yaw b))
        = lerp (vx (rotation b)) (targetPitch now b) 0.05"
    by (simp add: boatTick_def boundary_def beforeBoundary_def heading_def r attitude_def h
        targetPitch_heave)
  show "vz (rotation (boatTick now dt inp yaw b))
        = lerp (vz (rotation b)) (targetRoll now b) 0.05"
    by (simp add: boatTick_def boundary_def beforeBoundary_def heading_def r attitude_def h
        targetRoll_heave)
qed

lemma step_length:
  "sqrt ((- (moveSpeed * cos y))\<^sup>2 + (- (moveSpeed * sin (- y)))\<^sup>2) = moveSpeed"
proof -
  have c: "(- (moveSpeed * cos y))\<^sup>2 = moveSpeed\<^sup>2 * (cos y)\<^sup>2"
    by (simp add: power_mult_distrib)
  have s: "(- (moveSpeed * sin (- y)))\<^sup>2 = moveSpeed\<^sup>2 * (sin y)\<^sup>2"
    by (simp add: power_mult_distrib)
  have "(- (moveSpeed * cos y))\<^sup>2 + (- (moveSpeed * sin (- y)))\<^sup>2
        = moveSpeed\<^sup>2 * ((cos y)\<^sup>2 + (sin y)\<^sup>2)"
    unfolding c s by (simp only: distrib_left)
  also have "\<dots> = moveSpeed\<^sup>2" by simp
  finally show ?thesis by (simp add: moveSpeed_def)
qed

lemma tick_inWorld: "inWorld (tick now dt s)"
  by (cases "boatContainer s")
     (simp_all add: inWorld_def tick_boat boatTick_def position_boundary wrapCoordinate_bounds)

lemma reachable_inWorld: "reachable s \<Longrightarrow> inWorld s"
proof (induction rule: reachable.induct)
  case (start camPos reflPos cs)
  show ?case by (simp add: inWorld_def initialScene_def)
next
  case (frame s dt now)
  show ?case by (rule tick_inWorld)
next
  case (key s k ty)
  then show ?case by (simp add: inWorld_def keyAction_def)
next
  case (loaded s found)
  then show ?case
    by (simp add: inWorld_def boatLoaded_def Let_def HALF_WORLD_SIZE_def WORLD_SIZE_def)
next
  case (orbit s p)
  then show ?case by (simp add: inWorld_def)
next
  case (prepass s)
  then show ?case by (simp add: inWorld_def onBeforeRender_def Let_def)
next
  case (postpass s)
  then show ?case by (simp add: inWorld_def onAfterRender_def)
qed

section \<open>The wave field\<close>

text \<open>
  Claim C1. The host-side wave height is the reference formula
  \<open>a \<cdot> sin(x\<cdot>f + t) \<cdot> sin(z\<cdot>1.5\<cdot>f + 0.7\<cdot>t)\<close>: the \<open>waveHeight\<close> helper at its fixed
  amplitude 4.0 and frequency 0.05, and the expression the callback samples at the boat,
  with the frame's live amplitude and frequency.
\<close>

theorem wave_height_reference:
  "waveHeight x z t = height x z t 4.0 0.05
   \<and> verticalOffset now b
       = height (vx (position b)) (vz (position b)) now (newAmplitude now) (newFrequency now)"
proof
  show "waveHeight x z t = height x z t 4.0 0.05"
    unfolding waveHeight_def Let_def by (rule inline_wave_height)
  show "verticalOffset now b
        = height (vx (position b)) (vz (position b)) now (newAmplitude now) (newFrequency now)"
    unfolding verticalOffset_def Let_def by (rule inline_wave_height)
qed

text \<open>
  Claim C2. The height the vertex shader adds to the water surface should equal the wave
  height the callback samples for the boat at the same point, time, amplitude and frequency.
  It does not: the shader multiplies by the cosine of the z term, the callback by its sine.
  After the frame at clock 0 the uniforms are amplitude 4, frequency 0.0175 and time 0; at
  the grid vertex x = 78.125, z = 0 the shader raises the surface by \<open>4 \<cdot> sin 1.3671875 > 0\<close>
  while the boat at that point samples height 0.
\<close>

theorem shader_wave_differs_from_boat_wave:
  "vy (displacedPosition (vec3 78.125 0 0)
         (uniformWaveAmplitude (tick 0 16 (boatAt (vec3 78.125 BOAT_BASE_HEIGHT 0) pi Map.empty)))
         (uniformWaveFrequency (tick 0 16 (boatAt (vec3 78.125 BOAT_BASE_HEIGHT 0) pi Map.empty)))
         (uniformTime (tick 0 16 (boatAt (vec3 78.125 BOAT_BASE_HEIGHT 0) pi Map.empty))))
     = 4 * sin 1.3671875
   \<and> verticalOffset 0 \<lparr>position = vec3 78.125 BOAT_BASE_HEIGHT 0, rotation = vec3 0 pi 0\<rparr> = 0
   \<and> 0 < 4 * sin (1.3671875 :: real)"
proof -
  have pos: "0 < sin (1.3671875::real)" by (rule sin_small_pos) simp_all
  have shader: "vy (displacedPosition (vec3 78.125 0 0) (newAmplitude 0) (newFrequency 0) 0)
                = 4 * sin 1.3671875"
    by (simp add: displacedPosition_def shaderWave_def newAmplitude_0 newFrequency_0)
  have host: "verticalOffset 0
                \<lparr>position = vec3 78.125 BOAT_BASE_HEIGHT 0, rotation = vec3 0 pi 0\<rparr> = 0"
    by (simp add: verticalOffset_def Let_def)
  from pos shader host show ?thesis by (simp add: tick_uniforms)
qed

section \<open>Wave parameters\<close>

text \<open>
  Claim C5. The wave strength \<open>0.5 + 0.5 \<cdot> sin(0.05 \<cdot> now)\<close> lies in [0, 1]; the derived
  amplitude is \<open>minAmplitude + (maxAmplitude - minAmplitude) \<cdot> s\<close> and the derived frequency
  \<open>minFrequency + (maxFrequency - minFrequency) \<cdot> s\<close>, and these are the values the frame
  pushes to the shader; the amplitude is 1.0 at strength 0 and 7.0 at strength 1; the
  amplitude lies in [1.0, 7.0] and the frequency in [0.005, 0.03]; both grow strictly with
  the strength.
\<close>

theorem wave_parameters:
  "0 \<le> waveStrength now \<and> waveStrength now \<le> 1
   \<and> waveStrength now = 0.5 + 0.5 * sin (0.05 * now)
   \<and> newAmplitude now = minAmplitude + (maxAmplitude - minAmplitude) * waveStrength now
   \<and> newFrequency now = minFrequency + (maxFrequency - minFrequency) * waveStrength now
   \<and> uniformWaveAmplitude (tick now dt s) = newAmplitude now
   \<and> uniformWaveFrequency (tick now dt s) = newFrequency now
   \<and> amplitudeAt 0 = 1.0 \<and> amplitudeAt 1 = 7.0
   \<and> 1.0 \<le> newAmplitude now \<and> newAmplitude now \<le> 7.0
   \<and> 0.005 \<le> newFrequency now \<and> newFrequency now \<le> 0.03
   \<and> (sa < sb \<longrightarrow> amplitudeAt sa < amplitudeAt sb \<and> frequencyAt sa < frequencyAt sb)"
proof -
  have lo: "0 \<le> waveStrength now"
    unfolding waveStrength_def using sin_ge_minus_one [of "now * 0.05"] by linarith
  have hi: "waveStrength now \<le> 1"
    unfolding waveStrength_def using sin_le_one [of "now * 0.05"] by linarith
  have str: "waveStrength now = 0.5 + 0.5 * sin (0.05 * now)"
    by (simp add: waveStrength_def mult.commute)
  have amp: "1.0 \<le> newAmplitude now \<and> newAmplitude now \<le> 7.0"
    using lo hi by (simp add: newAmplitude_def amplitudeAt_def minAmplitude_def maxAmplitude_def)
  have freq: "0.005 \<le> newFrequency now \<and> newFrequency now \<le> 0.03"
    using lo hi by (simp add: newFrequency_def frequencyAt_def minFrequency_def maxFrequency_def)
  have ends: "amplitudeAt 0 = 1.0 \<and> amplitudeAt 1 = 7.0"
    by (simp add: amplitudeAt_def minAmplitude_def maxAmplitude_def)
  have mono: "sa < sb \<longrightarrow> amplitudeAt sa < amplitudeAt sb \<and> frequencyAt sa < frequencyAt sb"
    by (simp add: amplitudeAt_def frequencyAt_def minAmplitude_def maxAmplitude_def
        minFrequency_def maxFrequency_def)
  have defs: "newAmplitude now = minAmplitude + (maxAmplitude - minAmplitude) * waveStrength now
      \<and> newFrequency now = minFrequency + (maxFrequency - minFrequency) * waveStrength now"
    by (simp add: newAmplitude_def newFrequency_def amplitudeAt_def frequencyAt_def)
  from lo hi str amp freq ends mono defs show ?thesis
    by (simp only: tick_uniforms simp_thms)
qed

theorem wave_parameters_witness:
  "(0::real) < 1 \<and> amplitudeAt 0 < amplitudeAt 1 \<and> frequencyAt 0 < frequencyAt 1
   \<and> waveStrength 0 = 0.5 \<and> newAmplitude 0 = 4 \<and> newFrequency 0 = 0.0175"
proof -
  have h: "(0::real) < 1" by simp
  from wave_parameters [of 0 16 "boatAt (vec3 0 BOAT_BASE_HEIGHT 0) pi Map.empty" 0 1] h
  have "amplitudeAt 0 < amplitudeAt 1 \<and> frequencyAt 0 < frequencyAt 1 \<and> waveStrength 0 = 0.5"
    by simp
  then show ?thesis by (simp add: newAmplitude_0 newFrequency_0)
qed

section \<open>Day and night\<close>

text \<open>
  Claim C6. The daylight factor is a function of the phase alone,
  \<open>max(0, (sin(phase + pi/2) + nightDuration) / (1 - nightDuration))\<close> with nightDuration 0.5,
  and it is the factor the frame uses for the sky at the phase it has just advanced to; at
  every phase with \<open>sin(phase + pi/2) = - nightDuration\<close> the factor is 0.
\<close>

theorem daylight_factor_phase:
  "inclinationFactor phase
     = max 0 ((sin (phase + pi / 2) + nightDuration) / (1 - nightDuration))
   \<and> nightDuration = 0.5
   \<and> skyInclination (tick now dt s) = 0.2 + 0.8 * inclinationFactor (timeOfDay (tick now dt s))
   \<and> (sin (phase + pi / 2) = - nightDuration \<longrightarrow> inclinationFactor phase = 0)"
proof -
  have "inclinationFactor phase
        = max 0 ((sin (phase + pi / 2) + nightDuration) / (1 - nightDuration))"
    by (simp add: inclinationFactor_def Let_def dayNightRatio_def)
  moreover have "sin (phase + pi / 2) = - nightDuration \<longrightarrow> inclinationFactor phase = 0"
    by (simp add: inclinationFactor_def Let_def)
  ultimately show ?thesis
    by (simp only: tick_daylight simp_thms) (simp add: nightDuration_def)
qed

text \<open>
  The phase starts at \<open>pi\<close> and grows; the first phase after the start with
  \<open>sin(phase + pi/2) = - 1/2\<close> is \<open>pi + pi/3\<close>.
\<close>

theorem daylight_factor_phase_witness:
  "sin ((pi + pi / 3) + pi / 2) = - nightDuration \<and> inclinationFactor (pi + pi / 3) = 0"
proof -
  have "sin ((pi + pi / 3) + pi / 2) = cos (pi + pi / 3)"
    unfolding sin_add [of "pi + pi / 3" "pi / 2"] by simp
  also have "\<dots> = - cos (pi / 3)" by (rule cos_periodic_pi2)
  also have "\<dots> = - nightDuration" by (simp add: cos_60 nightDuration_def)
  finally have h: "sin ((pi + pi / 3) + pi / 2) = - nightDuration" .
  from daylight_factor_phase
    [of "pi + pi / 3" 0 16 "boatAt (vec3 0 BOAT_BASE_HEIGHT 0) pi Map.empty"] h
  have "inclinationFactor (pi + pi / 3) = 0" by blast
  with h show ?thesis by (rule conjI)
qed

text \<open>
  Claim C7, as stated: the daylight factor lies in [0, 1] at every phase. It fails at phase
  \<open>2 pi\<close> (full day), where the factor is 3: the callback bounds the factor from below
  only.
\<close>

theorem daylight_factor_unit_counterexample:
  "inclinationFactor (2 * pi) = 3
   \<and> \<not> (0 \<le> inclinationFactor (2 * pi) \<and> inclinationFactor (2 * pi) \<le> 1)"
proof -
  have "sin (2 * pi + pi / 2) = 1" by (subst sin_add) simp
  then have "inclinationFactor (2 * pi) = 3"
    by (simp add: inclinationFactor_def Let_def dayNightRatio_def nightDuration_def)
  then show ?thesis by simp
qed

text \<open>
  Claim C7, amended: at every phase the daylight factor lies in [0, 3].
\<close>

theorem daylight_factor_bounds:
  "0 \<le> inclinationFactor phase \<and> inclinationFactor phase \<le> 3"
proof -
  have "sin (phase + pi / 2) \<le> 1" by (rule sin_le_one)
  then show ?thesis
    by (simp add: inclinationFactor_def Let_def dayNightRatio_def nightDuration_def)
qed

section \<open>Pitch and roll\<close>

text \<open>
  Claim C3, as stated: the target pitch is the slope of the wave field between probes 5
  units ahead of and behind the boat along its heading, times 0.1; the target roll the slope
  between probes 3 units to either side of the heading, times -0.5; pitch and roll move
  toward their targets with factor 0.05. It fails for a boat at x = 0, z = 40 with yaw
  \<open>pi\<close> (heading along the x axis) in the frame at clock 0: the callback's pitch stays 0
  while the slope along the heading is negative, so the smoothed value would be negative;
  and the callback's roll becomes negative while the slope across the heading is 0.
  Whichever end of the heading counts as the front, the slope along it is not 0 there.
\<close>

theorem pitch_roll_heading_counterexample:
  "boatContainer (tick 0 16 (boatAt (vec3 0 BOAT_BASE_HEIGHT 40) pi Map.empty))
     = Some (boatTick 0 16 Map.empty pi
              \<lparr>position = vec3 0 BOAT_BASE_HEIGHT 40, rotation = vec3 0 pi 0\<rparr>)
   \<and> vx (rotation (boatTick 0 16 Map.empty pi
              \<lparr>position = vec3 0 BOAT_BASE_HEIGHT 40, rotation = vec3 0 pi 0\<rparr>)) = 0
   \<and> lerp 0 (headingTargetPitch 0
              \<lparr>position = vec3 0 BOAT_BASE_HEIGHT 40, rotation = vec3 0 pi 0\<rparr>) 0.05 < 0
   \<and> vz (rotation (boatTick 0 16 Map.empty pi
              \<lparr>position = vec3 0 BOAT_BASE_HEIGHT 40, rotation = vec3 0 pi 0\<rparr>)) < 0
   \<and> lerp 0 (lateralTargetRoll 0
              \<lparr>position = vec3 0 BOAT_BASE_HEIGHT 40, rotation = vec3 0 pi 0\<rparr>) 0.05 = 0"
proof -
  let ?b = "\<lparr>position = vec3 0 BOAT_BASE_HEIGHT 40, rotation = vec3 0 pi 0\<rparr>"
  have a: "0 < sin (0.0875::real)" by (rule sin_small_pos) simp_all
  have c: "0 < sin (1.05::real)" by (rule sin_small_pos) simp_all
  have d: "0 < sin (0.0525::real)" by (rule sin_small_pos) simp_all
  have "targetRoll 0 ?b = - (4 * sin 0.0525 * sin 1.05) / 6"
    by (simp add: targetRoll_def roll_def Let_def rollDelta_def newAmplitude_0 newFrequency_0)
  with c d have "targetRoll 0 ?b < 0" by simp
  then have codeRoll: "vz (rotation (boatTick 0 16 Map.empty pi ?b)) < 0"
    by (simp add: rotation_boatTick lerp_def)
  have specRoll: "lerp 0 (lateralTargetRoll 0 ?b) 0.05 = 0"
    by (simp add: lateralTargetRoll_def lateral_def slopeAlong_def forward_def height_def
        lerp_def)
  have code: "targetPitch 0 ?b = 0"
    by (simp add: targetPitch_def pitch_def Let_def)
  have "headingTargetPitch 0 ?b = - (4 * sin 0.0875 * sin 1.05) / 50"
    by (simp add: headingTargetPitch_def slopeAlong_def forward_def height_def
        newAmplitude_0 newFrequency_0)
  with a c have spec: "headingTargetPitch 0 ?b < 0" by simp
  have "vx (rotation (boatTick 0 16 Map.empty pi ?b)) = 0"
    by (simp add: rotation_boatTick code lerp_def)
  moreover have "lerp 0 (headingTargetPitch 0 ?b) 0.05 < 0"
    using spec by (simp add: lerp_def)
  ultimately show ?thesis
    using codeRoll specRoll by (simp add: tick_boat)
qed

text \<open>
  Claim C3, amended: in every frame with the boat present, the target pitch is the slope of
  the wave field between the probes 5 units either way along the world z axis, times 0.1,
  and the target roll the slope between the probes 3 units either way along the world x
  axis, times -0.5, whatever the heading; the pitch (rotation about x) and the roll
  (rotation about z) each move toward their target by \<open>lerp\<close> with factor 0.05.
\<close>

theorem pitch_roll_world_axes:
  assumes "boatContainer s = Some b"
  shows "boatContainer (tick now dt s) = Some (boatTick now dt (inputMap s) (boatYaw s) b)
     \<and> vx (rotation (boatTick now dt (inputMap s) (boatYaw s) b))
         = lerp (vx (rotation b)) (slopeAlong (vec3 0 0 1) 5 now b * 0.1) 0.05
     \<and> vz (rotation (boatTick now dt (inputMap s) (boatYaw s) b))
         = lerp (vz (rotation b)) (slopeAlong (vec3 1 0 0) 3 now b * - 0.5) 0.05"
  using assms by (simp add: tick_boat rotation_boatTick targetPitch_slope targetRoll_slope)

theorem pitch_roll_world_axes_witness:
  "boatContainer (boatAt (vec3 0 BOAT_BASE_HEIGHT 40) pi Map.empty)
     = Some \<lparr>position = vec3 0 BOAT_BASE_HEIGHT 40, rotation = vec3 0 pi 0\<rparr>
   \<and> vx (rotation (boatTick 0 16 Map.empty pi
         \<lparr>position = vec3 0 BOAT_BASE_HEIGHT 40, rotation = vec3 0 pi 0\<rparr>))
       = lerp 0 (slopeAlong (vec3 0 0 1) 5 0
           \<lparr>position = vec3 0 BOAT_BASE_HEIGHT 40, rotation = vec3 0 pi 0\<rparr> * 0.1) 0.05
   \<and> vz (rotation (boatTick 0 16 Map.empty pi
         \<lparr>position = vec3 0 BOAT_BASE_HEIGHT 40, rotation = vec3 0 pi 0\<rparr>))
       = lerp 0 (slopeAlong (vec3 1 0 0) 3 0
           \<lparr>position = vec3 0 BOAT_BASE_HEIGHT 40, rotation = vec3 0 pi 0\<rparr> * - 0.5) 0.05"
proof -
  have h: "boatContainer (boatAt (vec3 0 BOAT_BASE_HEIGHT 40) pi Map.empty)
           = Some \<lparr>position = vec3 0 BOAT_BASE_HEIGHT 40, rotation = vec3 0 pi 0\<rparr>"
    by simp
  from pitch_roll_world_axes [OF h, of 0 16] h show ?thesis by simp
qed

section \<open>World wrap\<close>

text \<open>
  Claim C4. In a frame with the boat present, if the boat's x coordinate is above
  HALF_WORLD_SIZE (20000) when the boundary check runs, it is -HALF_WORLD_SIZE after the
  frame; if it is below -HALF_WORLD_SIZE, it is HALF_WORLD_SIZE after the frame; the same
  holds for the z coordinate, each coordinate on its own.
\<close>

theorem boundary_wrap:
  assumes "boatContainer s = Some b"
  shows "boatContainer (tick now dt s) = Some (boatTick now dt (inputMap s) (boatYaw s) b)
     \<and> HALF_WORLD_SIZE = 20000
     \<and> (HALF_WORLD_SIZE < vx (position (beforeBoundary now dt (inputMap s) (boatYaw s) b))
          \<longrightarrow> vx (position (boatTick now dt (inputMap s) (boatYaw s) b)) = - HALF_WORLD_SIZE)
     \<and> (vx (position (beforeBoundary now dt (inputMap s) (boatYaw s) b)) < - HALF_WORLD_SIZE
          \<longrightarrow> vx (position (boatTick now dt (inputMap s) (boatYaw s) b)) = HALF_WORLD_SIZE)
     \<and> (HALF_WORLD_SIZE < vz (position (beforeBoundary now dt (inputMap s) (boatYaw s) b))
          \<longrightarrow> vz (position (boatTick now dt (inputMap s) (boatYaw s) b)) = - HALF_WORLD_SIZE)
     \<and> (vz (position (beforeBoundary now dt (inputMap s) (boatYaw s) b)) < - HALF_WORLD_SIZE
          \<longrightarrow> vz (position (boatTick now dt (inputMap s) (boatYaw s) b)) = HALF_WORLD_SIZE)"
  using assms
  by (simp add: tick_boat boatTick_def position_boundary wrapCoordinate_def
      HALF_WORLD_SIZE_def WORLD_SIZE_def)

text \<open>
  Four boats on the edge of the world, each driven over it within one frame: with yaw
  \<open>pi\<close> the forward vector is (-1, 0, 0), with yaw \<open>pi/2\<close> it is (0, 0, -1); "w" moves
  against it and "s" along it.
\<close>

theorem boundary_wrap_witness:
  "HALF_WORLD_SIZE < vx (position (beforeBoundary 0 16 [''w'' \<mapsto> True] pi
       \<lparr>position = vec3 20000 BOAT_BASE_HEIGHT 0, rotation = vec3 0 pi 0\<rparr>))
   \<and> vx (position (boatTick 0 16 [''w'' \<mapsto> True] pi
       \<lparr>position = vec3 20000 BOAT_BASE_HEIGHT 0, rotation = vec3 0 pi 0\<rparr>)) = - 20000
   \<and> vx (position (beforeBoundary 0 16 [''s'' \<mapsto> True] pi
       \<lparr>position = vec3 (- 20000) BOAT_BASE_HEIGHT 0, rotation = vec3 0 pi 0\<rparr>))
       < - HALF_WORLD_SIZE
   \<and> vx (position (boatTick 0 16 [''s'' \<mapsto> True] pi
       \<lparr>position = vec3 (- 20000) BOAT_BASE_HEIGHT 0, rotation = vec3 0 pi 0\<rparr>)) = 20000
   \<and> HALF_WORLD_SIZE < vz (position (beforeBoundary 0 16 [''w'' \<mapsto> True] (pi / 2)
       \<lparr>position = vec3 0 BOAT_BASE_HEIGHT 20000, rotation = vec3 0 (pi / 2) 0\<rparr>))
   \<and> vz (position (boatTick 0 16 [''w'' \<mapsto> True] (pi / 2)
       \<lparr>position = vec3 0 BOAT_BASE_HEIGHT 20000, rotation = vec3 0 (pi / 2) 0\<rparr>)) = - 20000
   \<and> vz (position (beforeBoundary 0 16 [''s'' \<mapsto> True] (pi / 2)
       \<lparr>position = vec3 0 BOAT_BASE_HEIGHT (- 20000), rotation = vec3 0 (pi / 2) 0\<rparr>))
       < - HALF_WORLD_SIZE
   \<and> vz (position (boatTick 0 16 [''s'' \<mapsto> True] (pi / 2)
       \<lparr>position = vec3 0 BOAT_BASE_HEIGHT (- 20000), rotation = vec3 0 (pi / 2) 0\<rparr>)) = 20000"
proof -
  let ?east = "\<lparr>position = vec3 20000 BOAT_BASE_HEIGHT 0, rotation = vec3 0 pi 0\<rparr>"
  let ?west = "\<lparr>position = vec3 (- 20000) BOAT_BASE_HEIGHT 0, rotation = vec3 0 pi 0\<rparr>"
  let ?north = "\<lparr>position = vec3 0 BOAT_BASE_HEIGHT 20000, rotation = vec3 0 (pi / 2) 0\<rparr>"
  let ?south = "\<lparr>position = vec3 0 BOAT_BASE_HEIGHT (- 20000), rotation = vec3 0 (pi / 2) 0\<rparr>"
  have w: "pressed [''w'' \<mapsto> True] ''w'' \<or> pressed [''w'' \<mapsto> True] ''ArrowUp''"
      "\<not> pressed [''w'' \<mapsto> True] ''s''" "\<not> pressed [''w'' \<mapsto> True] ''ArrowDown''"
    by (simp_all add: pressed_def)
  have s: "\<not> pressed [''s'' \<mapsto> True] ''w''" "\<not> pressed [''s'' \<mapsto> True] ''ArrowUp''"
      "pressed [''s'' \<mapsto> True] ''s'' \<or> pressed [''s'' \<mapsto> True] ''ArrowDown''"
    by (simp_all add: pressed_def)
  have e: "vx (position (beforeBoundary 0 16 [''w'' \<mapsto> True] pi ?east)) = 20000.5"
    by (simp add: position_beforeBoundary position_translate_forward [OF w] vadd_def
        vscale_def forward_def moveSpeed_def)
  have we: "vx (position (beforeBoundary 0 16 [''s'' \<mapsto> True] pi ?west)) = - 20000.5"
    by (simp add: position_beforeBoundary position_translate_backward [OF s] vadd_def
        vscale_def forward_def moveSpeed_def)
  have n: "vz (position (beforeBoundary 0 16 [''w'' \<mapsto> True] (pi / 2) ?north)) = 20000.5"
    by (simp add: position_beforeBoundary position_translate_forward [OF w] vadd_def
        vscale_def forward_def moveSpeed_def)
  have so: "vz (position (beforeBoundary 0 16 [''s'' \<mapsto> True] (pi / 2) ?south)) = - 20000.5"
    by (simp add: position_beforeBoundary position_translate_backward [OF s] vadd_def
        vscale_def forward_def moveSpeed_def)
  have h: "HALF_WORLD_SIZE = 20000"
    by (simp add: HALF_WORLD_SIZE_def WORLD_SIZE_def)
  have 1: "vx (position (boatTick 0 16 [''w'' \<mapsto> True] pi ?east)) = - 20000"
    using boundary_wrap [of "boatAt (vec3 20000 BOAT_BASE_HEIGHT 0) pi [''w'' \<mapsto> True]" ?east 0 16]
      e h by simp
  have 2: "vx (position (boatTick 0 16 [''s'' \<mapsto> True] pi ?west)) = 20000"
    using boundary_wrap [of "boatAt (vec3 (- 20000) BOAT_BASE_HEIGHT 0) pi [''s'' \<mapsto> True]" ?west 0 16]
      we h by simp
  have 3: "vz (position (boatTick 0 16 [''w'' \<mapsto> True] (pi / 2) ?north)) = - 20000"
    using boundary_wrap [of "boatAt (vec3 0 BOAT_BASE_HEIGHT 20000) (pi / 2) [''w'' \<mapsto> True]" ?north 0 16]
      n h by simp
  have 4: "vz (position (boatTick 0 16 [''s'' \<mapsto> True] (pi / 2) ?south)) = 20000"
    using boundary_wrap [of "boatAt (vec3 0 BOAT_BASE_HEIGHT (- 20000)) (pi / 2) [''s'' \<mapsto> True]" ?south 0 16]
      so h by simp
  from e we n so h 1 2 3 4 show ?thesis by simp
qed

text \<open>
  Claim C10. After every frame in which the boat container exists, the boat's x and z
  coordinates lie within HALF_WORLD_SIZE of 0 in absolute value; so this bound holds in every
  reachable state of the scene that has a boat.
\<close>

theorem boat_in_world:
  "(boatContainer s = Some b \<longrightarrow>
      boatContainer (tick now dt s) = Some (boatTick now dt (inputMap s) (boatYaw s) b)
      \<and> \<bar>vx (position (boatTick now dt (inputMap s) (boatYaw s) b))\<bar> \<le> HALF_WORLD_SIZE
      \<and> \<bar>vz (position (boatTick now dt (inputMap s) (boatYaw s) b))\<bar> \<le> HALF_WORLD_SIZE)
   \<and> (reachable s \<and> boatContainer s = Some b \<longrightarrow>
      \<bar>vx (position b)\<bar> \<le> HALF_WORLD_SIZE \<and> \<bar>vz (position b)\<bar> \<le> HALF_WORLD_SIZE)"
proof (intro conjI impI)
  assume b: "boatContainer s = Some b"
  then show "boatContainer (tick now dt s) = Some (boatTick now dt (inputMap s) (boatYaw s) b)"
    by (simp add: tick_boat)
  show "\<bar>vx (position (boatTick now dt (inputMap s) (boatYaw s) b))\<bar> \<le> HALF_WORLD_SIZE"
    by (simp add: boatTick_def position_boundary wrapCoordinate_bounds)
  show "\<bar>vz (position (boatTick now dt (inputMap s) (boatYaw s) b))\<bar> \<le> HALF_WORLD_SIZE"
    by (simp add: boatTick_def position_boundary wrapCoordinate_bounds)
next
  assume "reachable s \<and> boatContainer s = Some b"
  then have "inWorld s" and b: "boatContainer s = Some b"
    by (simp_all add: reachable_inWorld)
  then show "\<bar>vx (position b)\<bar> \<le> HALF_WORLD_SIZE" by (simp add: inWorld_def)
next
  assume "reachable s \<and> boatContainer s = Some b"
  then have "inWorld s" and b: "boatContainer s = Some b"
    by (simp_all add: reachable_inWorld)
  then show "\<bar>vz (position b)\<bar> \<le> HALF_WORLD_SIZE" by (simp add: inWorld_def)
qed

text \<open>
  The freshly loaded boat is a reachable state; the frame after it keeps the boat in the
  world, and so does the frame that drives a boat over the eastern edge.
\<close>

theorem boat_in_world_witness:
  "reachable (boatLoaded True (initialScene (vec3 0 50 (- 190)) (vec3 0 (- 50) (- 190)) []))
   \<and> boatContainer (boatLoaded True (initialScene (vec3 0 50 (- 190)) (vec3 0 (- 50) (- 190)) []))
       = Some \<lparr>position = vec3 0 BOAT_BASE_HEIGHT 0, rotation = vec3 0 BOAT_ROTATION_Y 0\<rparr>
   \<and> \<bar>vx (position (boatTick 0 16 Map.empty BOAT_ROTATION_Y
          \<lparr>position = vec3 0 BOAT_BASE_HEIGHT 0, rotation = vec3 0 BOAT_ROTATION_Y 0\<rparr>))\<bar>
       \<le> HALF_WORLD_SIZE
   \<and> \<bar>vz (position (boatTick 0 16 Map.empty BOAT_ROTATION_Y
          \<lparr>position = vec3 0 BOAT_BASE_HEIGHT 0, rotation = vec3 0 BOAT_ROTATION_Y 0\<rparr>))\<bar>
       \<le> HALF_WORLD_SIZE
   \<and> \<bar>vx (position (boatTick 0 16 [''w'' \<mapsto> True] pi
          \<lparr>position = vec3 20000 BOAT_BASE_HEIGHT 0, rotation = vec3 0 pi 0\<rparr>))\<bar>
       \<le> HALF_WORLD_SIZE"
proof -
  let ?s = "boatLoaded True (initialScene (vec3 0 50 (- 190)) (vec3 0 (- 50) (- 190)) [])"
  let ?b = "\<lparr>position = vec3 0 BOAT_BASE_HEIGHT 0, rotation = vec3 0 BOAT_ROTATION_Y 0\<rparr>"
  let ?east = "\<lparr>position = vec3 20000 BOAT_BASE_HEIGHT 0, rotation = vec3 0 pi 0\<rparr>"
  have r: "reachable ?s"
    by (intro reachable.loaded reachable.start)
  have c: "boatContainer ?s = Some ?b"
    by (simp add: boatLoaded_def Let_def)
  have i: "inputMap ?s = Map.empty" "boatYaw ?s = BOAT_ROTATION_Y"
    by (simp_all add: boatLoaded_def Let_def initialScene_def)
  from boat_in_world [of ?s ?b 0 16] r c i
  have fresh: "\<bar>vx (position (boatTick 0 16 Map.empty BOAT_ROTATION_Y ?b))\<bar> \<le> HALF_WORLD_SIZE
      \<and> \<bar>vz (position (boatTick 0 16 Map.empty BOAT_ROTATION_Y ?b))\<bar> \<le> HALF_WORLD_SIZE"
    by simp
  from boat_in_world [of "boatAt (vec3 20000 BOAT_BASE_HEIGHT 0) pi [''w'' \<mapsto> True]" ?east 0 16]
  have edge: "\<bar>vx (position (boatTick 0 16 [''w'' \<mapsto> True] pi ?east))\<bar> \<le> HALF_WORLD_SIZE"
    by simp
  from r c fresh edge show ?thesis by simp
qed

section \<open>Forward translation\<close>

text \<open>
  Claim C8. In a frame in which "w" or "ArrowUp" is pressed, neither "s" nor "ArrowDown" is,
  and the boundary check wraps nothing, the boat's x and z coordinates change by moveSpeed
  (0.5) times the negated forward vector \<open>(cos yaw, 0, sin(- yaw))\<close>, a step of length
  exactly 0.5, whatever the frame time \<open>dt\<close> is.
\<close>

theorem forward_step:
  assumes boat: "boatContainer s = Some b"
    and up: "pressed (inputMap s) ''w'' \<or> pressed (inputMap s) ''ArrowUp''"
    and down: "\<not> pressed (inputMap s) ''s''" "\<not> pressed (inputMap s) ''ArrowDown''"
    and nowrap:
      "\<bar>vx (position (beforeBoundary now dt (inputMap s) (boatYaw s) b))\<bar> \<le> HALF_WORLD_SIZE"
      "\<bar>vz (position (beforeBoundary now dt (inputMap s) (boatYaw s) b))\<bar> \<le> HALF_WORLD_SIZE"
  shows "boatContainer (tick now dt s) = Some (boatTick now dt (inputMap s) (boatYaw s) b)
     \<and> vx (position (boatTick now dt (inputMap s) (boatYaw s) b))
         = vx (position b) - moveSpeed * cos (vy (rotation b))
     \<and> vz (position (boatTick now dt (inputMap s) (boatYaw s) b))
         = vz (position b) - moveSpeed * sin (- vy (rotation b))
     \<and> sqrt ((vx (position (boatTick now dt (inputMap s) (boatYaw s) b)) - vx (position b))\<^sup>2
           + (vz (position (boatTick now dt (inputMap s) (boatYaw s) b)) - vz (position b))\<^sup>2)
         = moveSpeed
     \<and> forward b = vec3 (cos (vy (rotation b))) 0 (sin (- vy (rotation b)))
     \<and> moveSpeed = 0.5"
proof -
  let ?pre = "beforeBoundary now dt (inputMap s) (boatYaw s) b"
  let ?b' = "boatTick now dt (inputMap s) (boatYaw s) b"
  have tr: "position (translate (inputMap s) b)
            = vadd (position b) (vscale (forward b) (- moveSpeed))"
    using up down by (rule position_translate_forward)
  have px: "vx (position ?pre) = vx (position b) - moveSpeed * cos (vy (rotation b))"
    by (simp add: position_beforeBoundary tr vadd_def vscale_def forward_def)
  have pz: "vz (position ?pre) = vz (position b) - moveSpeed * sin (- vy (rotation b))"
    by (simp only: position_beforeBoundary tr vadd_def vscale_def forward_def vec3_sel) simp
  have x: "vx (position ?b') = vx (position b) - moveSpeed * cos (vy (rotation b))"
    using nowrap(1) px by (simp add: boatTick_def position_boundary wrapCoordinate_inside)
  have z: "vz (position ?b') = vz (position b) - moveSpeed * sin (- vy (rotation b))"
    using nowrap(2) pz by (simp add: boatTick_def position_boundary wrapCoordinate_inside)
  have d: "sqrt ((vx (position ?b') - vx (position b))\<^sup>2
               + (vz (position ?b') - vz (position b))\<^sup>2) = moveSpeed"
    unfolding x z using step_length [of "vy (rotation b)"] by simp
  have "boatContainer (tick now dt s) = Some ?b'"
    using boat by (simp add: tick_boat)
  with x z d show ?thesis
    by (simp add: forward_def moveSpeed_def)
qed

text \<open>
  The freshly placed boat (yaw \<open>pi\<close>, at the origin) with "w" held: a frame of 16 ms and a
  frame of 1000 ms both move it to x = 0.5, z = 0.
\<close>

theorem forward_step_witness:
  "pressed [''w'' \<mapsto> True] ''w''
   \<and> \<bar>vx (position (beforeBoundary 0 16 [''w'' \<mapsto> True] pi
        \<lparr>position = vec3 0 BOAT_BASE_HEIGHT 0, rotation = vec3 0 pi 0\<rparr>))\<bar> \<le> HALF_WORLD_SIZE
   \<and> \<bar>vz (position (beforeBoundary 0 16 [''w'' \<mapsto> True] pi
        \<lparr>position = vec3 0 BOAT_BASE_HEIGHT 0, rotation = vec3 0 pi 0\<rparr>))\<bar> \<le> HALF_WORLD_SIZE
   \<and> vx (position (boatTick 0 16 [''w'' \<mapsto> True] pi
        \<lparr>position = vec3 0 BOAT_BASE_HEIGHT 0, rotation = vec3 0 pi 0\<rparr>)) = 0.5
   \<and> vz (position (boatTick 0 16 [''w'' \<mapsto> True] pi
        \<lparr>position = vec3 0 BOAT_BASE_HEIGHT 0, rotation = vec3 0 pi 0\<rparr>)) = 0
   \<and> vx (position (boatTick 0 1000 [''w'' \<mapsto> True] pi
        \<lparr>position = vec3 0 BOAT_BASE_HEIGHT 0, rotation = vec3 0 pi 0\<rparr>)) = 0.5
   \<and> vz (position (boatTick 0 1000 [''w'' \<mapsto> True] pi
        \<lparr>position = vec3 0 BOAT_BASE_HEIGHT 0, rotation = vec3 0 pi 0\<rparr>)) = 0"
proof -
  let ?b = "\<lparr>position = vec3 0 BOAT_BASE_HEIGHT 0, rotation = vec3 0 pi 0\<rparr>"
  let ?s = "boatAt (vec3 0 BOAT_BASE_HEIGHT 0) pi [''w'' \<mapsto> True]"
  have w: "pressed [''w'' \<mapsto> True] ''w'' \<or> pressed [''w'' \<mapsto> True] ''ArrowUp''"
      "\<not> pressed [''w'' \<mapsto> True] ''s''" "\<not> pressed [''w'' \<mapsto> True] ''ArrowDown''"
    by (simp_all add: pressed_def)
  have p: "vx (position (beforeBoundary 0 dt [''w'' \<mapsto> True] pi ?b)) = 0.5"
      "vz (position (beforeBoundary 0 dt [''w'' \<mapsto> True] pi ?b)) = 0" for dt
    by (simp_all add: position_beforeBoundary position_translate_forward [OF w] vadd_def
        vscale_def forward_def moveSpeed_def)
  have inside: "\<bar>vx (position (beforeBoundary 0 dt [''w'' \<mapsto> True] pi ?b))\<bar> \<le> HALF_WORLD_SIZE"
      "\<bar>vz (position (beforeBoundary 0 dt [''w'' \<mapsto> True] pi ?b))\<bar> \<le> HALF_WORLD_SIZE" for dt
    by (simp_all add: p HALF_WORLD_SIZE_def WORLD_SIZE_def)
  have a: "vx (position (boatTick 0 16 [''w'' \<mapsto> True] pi ?b)) = 0.5
      \<and> vz (position (boatTick 0 16 [''w'' \<mapsto> True] pi ?b)) = 0"
    using forward_step [of ?s ?b 0 16] w inside [of 16] by (simp add: moveSpeed_def)
  have b: "vx (position (boatTick 0 1000 [''w'' \<mapsto> True] pi ?b)) = 0.5
      \<and> vz (position (boatTick 0 1000 [''w'' \<mapsto> True] pi ?b)) = 0"
    using forward_step [of ?s ?b 0 1000] w inside [of 1000] by (simp add: moveSpeed_def)
  from a b inside [of 16] show ?thesis by (simp add: pressed_def)
qed

section \<open>Reflection camera\<close>

text \<open>
  Claim C9. Every reflection pre-pass sets the reflection camera's position to the primary
  camera's position reflected in the normal (0, 1, 0), where \<open>reflect v n = v - 2 (v \<cdot> n) n\<close>,
  and its target to that reflected position plus the reflected view direction
  \<open>target - position\<close>. The pre-pass leaves the primary camera alone and its result depends
  on the primary camera only, so pre-passes run with the same primary camera give the same
  reflection camera.
\<close>

theorem reflection_camera:
  "camPosition (reflectionCamera (onBeforeRender s))
     = Reflect (camPosition (camera s)) (vec3 0 1 0)
   \<and> camTarget (reflectionCamera (onBeforeRender s))
       = vadd (Reflect (camPosition (camera s)) (vec3 0 1 0))
              (Reflect (vsubtract (camTarget (camera s)) (camPosition (camera s))) (vec3 0 1 0))
   \<and> Reflect v n = vsubtract v (vscale n (2 * Dot v n))
   \<and> camera (onBeforeRender s) = camera s
   \<and> reflectionCamera (onBeforeRender (onBeforeRender s)) = reflectionCamera (onBeforeRender s)
   \<and> (camera s' = camera s \<longrightarrow>
         reflectionCamera (onBeforeRender s') = reflectionCamera (onBeforeRender s))"
  by (simp add: onBeforeRender_def Let_def Reflect_def)

text \<open>
  The primary camera at (0, 50, -190) looking at the origin: its mirror image is at
  (0, -50, -190) and looks at the origin too, in the first pre-pass and in the one of the
  next frame.
\<close>

theorem reflection_camera_witness:
  "camera (onAfterRender (onBeforeRender (boatAt (vec3 0 BOAT_BASE_HEIGHT 0) pi Map.empty)))
     = camera (boatAt (vec3 0 BOAT_BASE_HEIGHT 0) pi Map.empty)
   \<and> reflectionCamera (onBeforeRender (onAfterRender (onBeforeRender
         (boatAt (vec3 0 BOAT_BASE_HEIGHT 0) pi Map.empty))))
       = reflectionCamera (onBeforeRender (boatAt (vec3 0 BOAT_BASE_HEIGHT 0) pi Map.empty))
   \<and> camPosition (reflectionCamera (onBeforeRender
         (boatAt (vec3 0 BOAT_BASE_HEIGHT 0) pi Map.empty))) = vec3 0 (- 50) (- 190)
   \<and> camTarget (reflectionCamera (onBeforeRender
         (boatAt (vec3 0 BOAT_BASE_HEIGHT 0) pi Map.empty))) = vec3 0 0 0"
proof -
  let ?s = "boatAt (vec3 0 BOAT_BASE_HEIGHT 0) pi Map.empty"
  have h: "camera (onAfterRender (onBeforeRender ?s)) = camera ?s"
    by (simp add: onAfterRender_def onBeforeRender_def Let_def)
  have r: "Reflect (vec3 0 50 (- 190)) (vec3 0 1 0) = vec3 0 (- 50) (- 190)"
    by (simp add: Reflect_def vsubtract_def vscale_def Dot_def)
  have v: "vadd (vec3 0 (- 50) (- 190))
             (Reflect (vsubtract (vec3 0 0 0) (vec3 0 50 (- 190))) (vec3 0 1 0)) = vec3 0 0 0"
    by (simp add: Reflect_def vadd_def vsubtract_def vscale_def Dot_def)
  from reflection_camera [of ?s "vec3 0 50 (- 190)" "vec3 0 1 0" "onAfterRender (onBeforeRender ?s)"]
    h r v
  show ?thesis by simp
qed

end
